theory Spec2Isabelle
  imports Main "HOL-Library.Word"
begin

section \<open>klujax: the dispatch layer around the KLU kernels\<close>

text \<open>
  The module \<^verbatim>\<open>klujax.py\<close> wraps four native kernels (solve and sparse
  matrix-vector product, each for float64 and complex128) as JAX primitives: it picks the
  kernel by element type, lowers a call to a custom call on flattened buffers, and registers
  a forward rule, a transpose rule and a batching rule. This theory embeds that module.
  Arrays are a shape and a row-major buffer; every \<^verbatim>\<open>raise\<close> and every failing
  \<^verbatim>\<open>assert\<close> is a left value of a sum type.
\<close>

subsection \<open>Data model\<close>

datatype primitive = Solve_f64 | Solve_c128 | Coo_mul_vec_f64 | Coo_mul_vec_c128

datatype dtype =
    Bool_ | Int8 | Int16 | Int32 | Int64 | UInt8 | UInt16 | UInt32 | UInt64
  | BFloat16 | Float16 | Float32 | Float64 | Complex64 | Complex128 | Complex256

datatype error =
    AssertionError string
  | ValueError string
  | IndexError string
  | NotImplementedError string

record 'a array =
  dtype :: dtype
  shape :: "nat list"
  data :: "'a list"

text \<open>The invariant of an array: the buffer holds one element per index.\<close>

definition wf_array :: "'a array \<Rightarrow> bool" where
  "wf_array a = (length (data a) = prod_list (shape a))"

text \<open>Sequencing of fallible steps: the first error ends the computation.\<close>

definition and_then :: "error + 'a \<Rightarrow> ('a \<Rightarrow> error + 'b) \<Rightarrow> error + 'b" where
  "and_then m f = (case m of Inl e \<Rightarrow> Inl e | Inr x \<Rightarrow> f x)"

text \<open>
  What the module takes from outside \<^verbatim>\<open>klujax.py\<close>: the element conversions of
  \<^verbatim>\<open>astype\<close>, the zero of each element type, and the compiled kernels of
  \<^verbatim>\<open>klujax_cpp\<close>, one per primitive, called with the four int32 sizes
  \<^verbatim>\<open>(n_col, n_lhs, n_rhs, Anz)\<close> and the four flat buffers.
\<close>

record ('i, 'a) host =
  cast_index :: "dtype \<Rightarrow> dtype \<Rightarrow> 'i \<Rightarrow> 'i"
  cast_value :: "dtype \<Rightarrow> dtype \<Rightarrow> 'a \<Rightarrow> 'a"
  zero_index :: 'i
  zero_value :: 'a
  klujax_cpp :: "primitive \<Rightarrow> 32 word \<Rightarrow> 32 word \<Rightarrow> 32 word \<Rightarrow> 32 word
                  \<Rightarrow> 'i list \<Rightarrow> 'i list \<Rightarrow> 'a list \<Rightarrow> 'a list \<Rightarrow> 'a list"

subsection \<open>Array operations of the host framework\<close>

text \<open>Row-major addressing: a flat offset and the index tuple it stands for.\<close>

fun unravel :: "nat list \<Rightarrow> nat \<Rightarrow> nat list" where
  "unravel [] k = []"
| "unravel (d # ds) k = (k div prod_list ds) # unravel ds (k mod prod_list ds)"

fun ravel :: "nat list \<Rightarrow> nat list \<Rightarrow> nat" where
  "ravel (d # ds) (i # is) = i * prod_list ds + ravel ds is"
| "ravel _ _ = 0"

definition index_of :: "nat list \<Rightarrow> nat \<Rightarrow> nat" where
  "index_of perm ax = length (takeWhile (\<lambda>p. p \<noteq> ax) perm)"

text \<open>
  Axis permutation, as \<^verbatim>\<open>Transpose\<close> and \<^verbatim>\<open>transpose\<close> do it: axis
  \<open>j\<close> of the result is axis \<open>perm ! j\<close> of the operand.
\<close>

definition permute_axes :: "'a array \<Rightarrow> nat list \<Rightarrow> 'a array" where
  "permute_axes a perm =
     (let shp = map (\<lambda>p. shape a ! p) perm in
      \<lparr> dtype = dtype a, shape = shp,
        data = map (\<lambda>k. data a ! ravel (shape a)
                        (map (\<lambda>ax. unravel shp k ! index_of perm ax) [0..<length (shape a)]))
                   [0..<prod_list shp] \<rparr>)"

definition is_permutation :: "nat list \<Rightarrow> nat \<Rightarrow> bool" where
  "is_permutation perm n = (sort perm = [0..<n])"

definition xla_Reshape :: "'a array \<Rightarrow> nat list \<Rightarrow> error + 'a array" where
  "xla_Reshape a dims =
     (if prod_list dims = prod_list (shape a) then Inr (a\<lparr>shape := dims\<rparr>)
      else Inl (ValueError ''Reshape: element counts differ''))"

definition xla_Transpose :: "'a array \<Rightarrow> nat list \<Rightarrow> error + 'a array" where
  "xla_Transpose a perm =
     (if is_permutation perm (length (shape a)) then Inr (permute_axes a perm)
      else Inl (ValueError ''Transpose: not a permutation of the axes''))"

text \<open>
  \<^verbatim>\<open>x.reshape(...)\<close>: one entry may be \<open>-1\<close> and is then inferred from the
  element count, which fails when the other entries do not divide it.
\<close>

definition jnp_reshape :: "'a array \<Rightarrow> int list \<Rightarrow> error + 'a array" where
  "jnp_reshape a newshape =
     (let size = prod_list (shape a);
          known = nat (prod_list (filter (\<lambda>d. d \<noteq> - 1) newshape)) in
      if \<exists>d \<in> set newshape. d < - 1 then Inl (ValueError ''reshape: negative dimension'')
      else if 1 < length (filter (\<lambda>d. d = - 1) newshape)
        then Inl (ValueError ''reshape: can only specify one unknown dimension'')
      else if - 1 \<in> set newshape then
        (if known = 0 \<or> size mod known \<noteq> 0
           then Inl (ValueError ''reshape: cannot infer the unknown dimension'')
         else Inr (a\<lparr>shape := map (\<lambda>d. if d = - 1 then size div known else nat d) newshape\<rparr>))
      else if known = size then Inr (a\<lparr>shape := map nat newshape\<rparr>)
      else Inl (ValueError ''reshape: element counts differ''))"

definition jnp_transpose :: "'a array \<Rightarrow> nat list \<Rightarrow> error + 'a array" where
  "jnp_transpose a perm =
     (if is_permutation perm (length (shape a)) then Inr (permute_axes a perm)
      else Inl (ValueError ''transpose: axes do not match the array''))"

text \<open>
  \<^verbatim>\<open>jnp.moveaxis(a, source, destination)\<close>: the other axes keep their order and
  \<open>source\<close> is put at \<open>destination\<close>.
\<close>

definition jnp_moveaxis :: "'a array \<Rightarrow> nat \<Rightarrow> nat \<Rightarrow> error + 'a array" where
  "jnp_moveaxis a source destination =
     (let n = length (shape a);
          order = filter (\<lambda>k. k \<noteq> source) [0..<n] in
      if source < n \<and> destination < n
        then jnp_transpose a (take destination order @ [source] @ drop destination order)
      else Inl (ValueError ''moveaxis: axis out of bounds''))"

text \<open>\<^verbatim>\<open>b[None]\<close>: a new leading axis of extent one.\<close>

definition expand_dims :: "'a array \<Rightarrow> 'a array" where
  "expand_dims a = a\<lparr>shape := 1 # shape a\<rparr>"

text \<open>
  \<^verbatim>\<open>jnp.broadcast_to\<close>: shapes are aligned at their last axes; an axis of the
  operand either has the target's extent or extent one, and is then repeated.
\<close>

definition jnp_broadcast_to :: "'a array \<Rightarrow> nat list \<Rightarrow> error + 'a array" where
  "jnp_broadcast_to a shp =
     (let lead = length shp - length (shape a) in
      if length (shape a) \<le> length shp
         \<and> list_all2 (\<lambda>d t. d = t \<or> d = 1) (shape a) (drop lead shp)
      then Inr \<lparr> dtype = dtype a, shape = shp,
                 data = map (\<lambda>k. data a ! ravel (shape a)
                                 (map2 (\<lambda>d i. if d = 1 then 0 else i) (shape a)
                                       (drop lead (unravel shp k))))
                            [0..<prod_list shp] \<rparr>
      else Inl (ValueError ''broadcast_to: incompatible shapes''))"

definition astype_index :: "('i, 'a) host \<Rightarrow> 'i array \<Rightarrow> dtype \<Rightarrow> 'i array" where
  "astype_index H a dt = a\<lparr>dtype := dt, data := map (cast_index H (dtype a) dt) (data a)\<rparr>"

definition astype :: "('i, 'a) host \<Rightarrow> 'a array \<Rightarrow> dtype \<Rightarrow> 'a array" where
  "astype H a dt = a\<lparr>dtype := dt, data := map (cast_value H (dtype a) dt) (data a)\<rparr>"

definition zeros_like_array :: "'x \<Rightarrow> 'x array \<Rightarrow> 'x array" where
  "zeros_like_array z a = a\<lparr>data := replicate (length (data a)) z\<rparr>"

subsection \<open>Constants\<close>

definition COMPLEX_DTYPES :: "dtype list" where
  "COMPLEX_DTYPES = [Complex64, Complex128, Complex256, Complex64, Complex128]"

subsection \<open>The lowering to the kernel call\<close>

text \<open>
  \<^verbatim>\<open>CustomCallWithLayout\<close>: the kernel registered under the primitive's name runs on
  the operands; the result has the shape and element type of the flattened operand.
\<close>

definition CustomCallWithLayout ::
  "('i, 'a) host \<Rightarrow> primitive \<Rightarrow> 32 word \<Rightarrow> 32 word \<Rightarrow> 32 word \<Rightarrow> 32 word
     \<Rightarrow> 'i array \<Rightarrow> 'i array \<Rightarrow> 'a array \<Rightarrow> 'a array \<Rightarrow> 'a array" where
  "CustomCallWithLayout H primitive_name n_col n_lhs n_rhs Anz Ai Aj Ax b =
     \<lparr> dtype = dtype b, shape = shape b,
       data = klujax_cpp H primitive_name n_col n_lhs n_rhs Anz
                (data Ai) (data Aj) (data Ax) (data b) \<rparr>"

text \<open>
  The two ways the operand's shape is unpacked: with a batch axis in front when the
  matrix values have one, and with batch count one otherwise.
\<close>

definition unpack_b_shape :: "nat list \<Rightarrow> nat list \<Rightarrow> error + (nat \<times> nat \<times> nat list)" where
  "unpack_b_shape n_lhs_list dims =
     (if n_lhs_list \<noteq> [] then
        (case dims of
           n_lhs_b # n_col # n_rhs_list \<Rightarrow> Inr (n_lhs_b, n_col, n_rhs_list)
         | _ \<Rightarrow> Inl (ValueError ''not enough values to unpack''))
      else
        (case dims of
           n_col # n_rhs_list \<Rightarrow> Inr (1, n_col, n_rhs_list)
         | _ \<Rightarrow> Inl (ValueError ''not enough values to unpack'')))"

definition coo_vec_operation_xla ::
  "('i, 'a) host \<Rightarrow> primitive \<Rightarrow> 'i array \<Rightarrow> 'i array \<Rightarrow> 'a array \<Rightarrow> 'a array
     \<Rightarrow> error + 'a array" where
  "coo_vec_operation_xla H primitive_name Ai Aj Ax b =
     (if shape Ax = [] then Inl (ValueError ''not enough values to unpack'')
      else
        let n_lhs_list = butlast (shape Ax); Anz = last (shape Ax) in
        if \<not> length n_lhs_list < 2
          then Inl (AssertionError ''solve alows for maximum one batch dimension.'')
        else
          let n_lhs = prod_list n_lhs_list in
          and_then (xla_Reshape Ax [n_lhs * Anz]) (\<lambda>Ax.
          and_then (unpack_b_shape n_lhs_list (shape b)) (\<lambda>(n_lhs_b, n_col, n_rhs_list).
          if n_lhs_b \<noteq> n_lhs
            then Inl (AssertionError ''Batch dimension of Ax and b don't match.'')
          else
            let n_rhs = prod_list n_rhs_list in
            and_then (xla_Reshape b [n_lhs, n_col, n_rhs]) (\<lambda>b.
            and_then (xla_Transpose b [0, 2, 1]) (\<lambda>b.
            and_then (xla_Reshape b [n_lhs * n_rhs * n_col]) (\<lambda>b.
            let result = CustomCallWithLayout H primitive_name
                           (of_nat n_col) (of_nat n_lhs) (of_nat n_rhs) (of_nat Anz) Ai Aj Ax b in
            and_then (xla_Reshape result [n_lhs, n_rhs, n_col]) (\<lambda>result.
            and_then (xla_Transpose result [0, 2, 1]) (\<lambda>result.
            if n_lhs_list \<noteq> [] then xla_Reshape result (n_lhs # n_col # n_rhs_list)
            else xla_Reshape result (n_col # n_rhs_list)))))))))"

subsection \<open>The two public functions\<close>

text \<open>
  \<^verbatim>\<open>solve\<close> and \<^verbatim>\<open>coo_mul_vec\<close> choose a primitive and bind it. What
  \<^verbatim>\<open>bind\<close> does depends on where the call stands (it runs the lowering, or it is
  handed to a differentiation or batching rule), so it is the parameter \<open>bnd\<close>.
\<close>

definition solve ::
  "('i, 'a) host \<Rightarrow> (primitive \<Rightarrow> 'i array \<Rightarrow> 'i array \<Rightarrow> 'a array \<Rightarrow> 'a array \<Rightarrow> 'r)
     \<Rightarrow> 'i array \<Rightarrow> 'i array \<Rightarrow> 'a array \<Rightarrow> 'a array \<Rightarrow> 'r" where
  "solve H bnd Ai Aj Ax b =
     (if list_ex (\<lambda>x. dtype x \<in> set COMPLEX_DTYPES) [Ax, b] then
        bnd Solve_c128
          (astype_index H Ai Int32)
          (astype_index H Aj Int32)
          (astype H Ax Complex128)
          (astype H b Complex128)
      else
        bnd Solve_f64
          (astype_index H Ai Int32)
          (astype_index H Aj Int32)
          (astype H Ax Float64)
          (astype H b Float64))"

definition coo_mul_vec ::
  "('i, 'a) host \<Rightarrow> (primitive \<Rightarrow> 'i array \<Rightarrow> 'i array \<Rightarrow> 'a array \<Rightarrow> 'a array \<Rightarrow> 'r)
     \<Rightarrow> 'i array \<Rightarrow> 'i array \<Rightarrow> 'a array \<Rightarrow> 'a array \<Rightarrow> 'r" where
  "coo_mul_vec H bnd Ai Aj Ax b =
     (if list_ex (\<lambda>x. dtype x \<in> set COMPLEX_DTYPES) [Ax, b] then
        bnd Coo_mul_vec_c128
          (astype_index H Ai Int32)
          (astype_index H Aj Int32)
          (astype H Ax Complex128)
          (astype H b Complex128)
      else
        bnd Coo_mul_vec_f64
          (astype_index H Ai Int32)
          (astype_index H Aj Int32)
          (astype H Ax Float64)
          (astype H b Float64))"

subsection \<open>Differentiation rules\<close>

text \<open>A tangent is either the symbolic zero \<^verbatim>\<open>ad.Zero\<close> or a buffer.\<close>

datatype 'x tangent = Zero | Tangent 'x

text \<open>The primal of a linear argument is undefined during transposition.\<close>

datatype 'x primal = UndefinedPrimal | Primal 'x

type_synonym ('i, 'a) bind_fn =
  "primitive \<Rightarrow> 'i array \<Rightarrow> 'i array \<Rightarrow> 'a array \<Rightarrow> 'a array \<Rightarrow> error + 'a array"

definition solve_f64_value_and_jvp ::
  "('i, 'a) host \<Rightarrow> ('i, 'a) bind_fn
     \<Rightarrow> 'i array \<times> 'i array \<times> 'a array \<times> 'a array
     \<Rightarrow> 'i array tangent \<times> 'i array tangent \<times> 'a array tangent \<times> 'a array tangent
     \<Rightarrow> error + ('a array \<times> 'a array)" where
  "solve_f64_value_and_jvp H bnd arg_values arg_tangents =
     (case arg_values of (Ai, Aj, Ax, b) \<Rightarrow>
      case arg_tangents of (dAi, dAj, dAx, db) \<Rightarrow>
      let dAx = (case dAx of Tangent t \<Rightarrow> t | Zero \<Rightarrow> zeros_like_array (zero_value H) Ax);
          dAi = (case dAi of Tangent t \<Rightarrow> t | Zero \<Rightarrow> zeros_like_array (zero_index H) Ai);
          dAj = (case dAj of Tangent t \<Rightarrow> t | Zero \<Rightarrow> zeros_like_array (zero_index H) Aj);
          db = (case db of Tangent t \<Rightarrow> t | Zero \<Rightarrow> zeros_like_array (zero_value H) b)
      in
      and_then (solve H bnd Ai Aj Ax b) (\<lambda>x.
      and_then (coo_mul_vec H bnd Ai Aj dAx x) (\<lambda>dA_x.
      and_then (solve H bnd Ai Aj Ax db) (\<lambda>dx.
      Inr (x, dx)))))"

definition is_undefined_primal :: "'x primal \<Rightarrow> bool" where
  "is_undefined_primal p = (case p of UndefinedPrimal \<Rightarrow> True | Primal _ \<Rightarrow> False)"

definition solve_f64_transpose ::
  "('i, 'a) host \<Rightarrow> ('i, 'a) bind_fn
     \<Rightarrow> 'a array \<Rightarrow> 'i array \<Rightarrow> 'i array \<Rightarrow> 'a array \<Rightarrow> 'a array primal
     \<Rightarrow> error + ('i array option \<times> 'i array option \<times> 'a array option \<times> 'a array option)" where
  "solve_f64_transpose H bnd ct Ai Aj Ax b =
     (if \<not> is_undefined_primal b then Inl (AssertionError [])
      else
        and_then (solve H bnd Ai Aj Ax ct) (\<lambda>ct_b.
        Inr (None, None, None, Some ct_b)))"

subsection \<open>The batching rule\<close>

definition shape_at :: "'a array \<Rightarrow> nat \<Rightarrow> error + nat" where
  "shape_at a k =
     (if k < length (shape a) then Inr (shape a ! k)
      else Inl (IndexError ''tuple index out of range''))"

definition coo_vec_operation_vmap ::
  "('i array \<Rightarrow> 'i array \<Rightarrow> 'a array \<Rightarrow> 'a array \<Rightarrow> error + 'a array)
     \<Rightarrow> 'i array \<times> 'i array \<times> 'a array \<times> 'a array
     \<Rightarrow> nat option \<times> nat option \<times> nat option \<times> nat option
     \<Rightarrow> error + ('a array \<times> nat)" where
  "coo_vec_operation_vmap operation vector_arg_values batch_axes =
     (case batch_axes of (aAi, aAj, aAx, ab) \<Rightarrow>
      case vector_arg_values of (Ai, Aj, Ax, b) \<Rightarrow>
      if aAi \<noteq> None then Inl (AssertionError ''Ai cannot be vectorized.'')
      else if aAj \<noteq> None then Inl (AssertionError ''Aj cannot be vectorized.'')
      else if aAx \<noteq> None \<and> ab \<noteq> None then
        (case (aAx, ab) of
           (Some aAx, Some ab) \<Rightarrow>
             and_then (shape_at Ax aAx) (\<lambda>n_lhs.
             and_then (if ab \<noteq> 0 then jnp_moveaxis Ax aAx 0 else Inr Ax) (\<lambda>Ax.
             and_then (if ab \<noteq> 0 then jnp_moveaxis b ab 0 else Inr b) (\<lambda>b.
             and_then (operation Ai Aj Ax b) (\<lambda>result.
             Inr (result, 0)))))
         | _ \<Rightarrow> Inl (AssertionError []))
      else if ab = None then
        (case aAx of
           None \<Rightarrow> Inl (AssertionError [])
         | Some aAx \<Rightarrow>
             and_then (shape_at Ax aAx) (\<lambda>n_lhs.
             and_then (if aAx \<noteq> 0 then jnp_moveaxis Ax aAx 0 else Inr Ax) (\<lambda>Ax.
             and_then (shape_at Ax 0) (\<lambda>Ax_shape_0.
             and_then (jnp_broadcast_to (expand_dims b) (Ax_shape_0 # shape b)) (\<lambda>b.
             and_then (operation Ai Aj Ax b) (\<lambda>result.
             Inr (result, 0)))))))
      else if aAx = None then
        (case ab of
           None \<Rightarrow> Inl (AssertionError [])
         | Some ab \<Rightarrow>
             and_then (if ab \<noteq> 0 then jnp_moveaxis b ab 0 else Inr b) (\<lambda>b.
             (case shape b of
                n_lhs # n_col # n_rhs_list \<Rightarrow>
                  let n_rhs = prod_list n_rhs_list in
                  and_then (jnp_reshape b [int n_lhs, int n_col, int n_rhs]) (\<lambda>b.
                  and_then (jnp_transpose b [1, 0, 2]) (\<lambda>b.
                  and_then (jnp_reshape b [int n_col, - 1]) (\<lambda>b.
                  and_then (operation Ai Aj Ax b) (\<lambda>result.
                  and_then (jnp_reshape result (map int (n_col # n_lhs # n_rhs_list))) (\<lambda>result.
                  Inr (result, 1))))))
              | _ \<Rightarrow> Inl (ValueError ''not enough values to unpack''))))
      else Inl (ValueError ''invalid arguments for vmap''))"

subsection \<open>Registration\<close>

text \<open>
  The rule tables of the host framework are dictionaries keyed by primitive. The
  decorators of the module write into them; the module's top level applies the decorators
  in the order below, starting from tables that know none of the four new primitives.
\<close>

type_synonym ('i, 'a) jvp_rule =
  "('i, 'a) host \<Rightarrow> ('i, 'a) bind_fn
     \<Rightarrow> 'i array \<times> 'i array \<times> 'a array \<times> 'a array
     \<Rightarrow> 'i array tangent \<times> 'i array tangent \<times> 'a array tangent \<times> 'a array tangent
     \<Rightarrow> error + ('a array \<times> 'a array)"

type_synonym ('i, 'a) transpose_rule =
  "('i, 'a) host \<Rightarrow> ('i, 'a) bind_fn
     \<Rightarrow> 'a array \<Rightarrow> 'i array \<Rightarrow> 'i array \<Rightarrow> 'a array \<Rightarrow> 'a array primal
     \<Rightarrow> error + ('i array option \<times> 'i array option \<times> 'a array option \<times> 'a array option)"

type_synonym ('i, 'a) batcher =
  "('i, 'a) host \<Rightarrow> ('i, 'a) bind_fn
     \<Rightarrow> 'i array \<times> 'i array \<times> 'a array \<times> 'a array
     \<Rightarrow> nat option \<times> nat option \<times> nat option \<times> nat option
     \<Rightarrow> error + ('a array \<times> nat)"

type_synonym ('i, 'a) translation =
  "('i, 'a) host \<Rightarrow> 'i array \<Rightarrow> 'i array \<Rightarrow> 'a array \<Rightarrow> 'a array \<Rightarrow> error + 'a array"

record ('i, 'a) registry =
  cpu_translations :: "primitive \<rightharpoonup> ('i, 'a) translation"
  primitive_jvps :: "primitive \<rightharpoonup> ('i, 'a) jvp_rule"
  primitive_transposes :: "primitive \<rightharpoonup> ('i, 'a) transpose_rule"
  primitive_batchers :: "primitive \<rightharpoonup> ('i, 'a) batcher"

definition empty_registry :: "('i, 'a) registry" where
  "empty_registry =
     \<lparr> cpu_translations = Map.empty, primitive_jvps = Map.empty,
       primitive_transposes = Map.empty, primitive_batchers = Map.empty \<rparr>"

definition xla_register_cpu ::
  "primitive \<Rightarrow> (('i, 'a) host \<Rightarrow> primitive \<Rightarrow> 'i array \<Rightarrow> 'i array \<Rightarrow> 'a array \<Rightarrow> 'a array
       \<Rightarrow> error + 'a array)
     \<Rightarrow> ('i, 'a) registry \<Rightarrow> ('i, 'a) registry" where
  "xla_register_cpu primitive fn r =
     r\<lparr>cpu_translations := (cpu_translations r)(primitive \<mapsto> (\<lambda>H. fn H primitive))\<rparr>"

definition ad_register ::
  "primitive \<Rightarrow> ('i, 'a) jvp_rule \<Rightarrow> ('i, 'a) registry \<Rightarrow> ('i, 'a) registry" where
  "ad_register primitive fn r = r\<lparr>primitive_jvps := (primitive_jvps r)(primitive \<mapsto> fn)\<rparr>"

definition transpose_register ::
  "primitive \<Rightarrow> ('i, 'a) transpose_rule \<Rightarrow> ('i, 'a) registry \<Rightarrow> ('i, 'a) registry" where
  "transpose_register primitive fn r =
     r\<lparr>primitive_transposes := (primitive_transposes r)(primitive \<mapsto> fn)\<rparr>"

text \<open>
  \<^verbatim>\<open>vmap_register(primitive, operation)\<close> stores the rule with its first argument
  fixed to the public function named in the decorator.
\<close>

datatype operation = Op_solve | Op_coo_mul_vec

definition call_operation ::
  "operation \<Rightarrow> ('i, 'a) host \<Rightarrow> ('i, 'a) bind_fn
     \<Rightarrow> 'i array \<Rightarrow> 'i array \<Rightarrow> 'a array \<Rightarrow> 'a array \<Rightarrow> error + 'a array" where
  "call_operation operation H bnd =
     (case operation of Op_solve \<Rightarrow> solve H bnd | Op_coo_mul_vec \<Rightarrow> coo_mul_vec H bnd)"

definition vmap_register ::
  "primitive \<Rightarrow> operation \<Rightarrow> ('i, 'a) registry \<Rightarrow> ('i, 'a) registry" where
  "vmap_register primitive operation r =
     r\<lparr>primitive_batchers := (primitive_batchers r)
          (primitive \<mapsto> (\<lambda>H bnd. coo_vec_operation_vmap (call_operation operation H bnd)))\<rparr>"

definition klujax_registry :: "('i, 'a) registry" where
  "klujax_registry =
     (vmap_register Solve_f64 Op_solve
      (vmap_register Solve_c128 Op_solve
      (vmap_register Coo_mul_vec_f64 Op_coo_mul_vec
      (vmap_register Coo_mul_vec_c128 Op_coo_mul_vec
      (transpose_register Solve_f64 solve_f64_transpose
      (ad_register Solve_f64 solve_f64_value_and_jvp
      (xla_register_cpu Solve_f64 coo_vec_operation_xla
      (xla_register_cpu Solve_c128 coo_vec_operation_xla
      (xla_register_cpu Coo_mul_vec_f64 coo_vec_operation_xla
      (xla_register_cpu Coo_mul_vec_c128 coo_vec_operation_xla
       empty_registry))))))))))"

text \<open>
  The framework's dispatch under forward differentiation: it looks the primitive up in
  \<^verbatim>\<open>ad.primitive_jvps\<close> and fails when there is no rule.
\<close>

definition process_primitive_jvp ::
  "('i, 'a) registry \<Rightarrow> ('i, 'a) host \<Rightarrow> ('i, 'a) bind_fn \<Rightarrow> primitive
     \<Rightarrow> 'i array \<times> 'i array \<times> 'a array \<times> 'a array
     \<Rightarrow> 'i array tangent \<times> 'i array tangent \<times> 'a array tangent \<times> 'a array tangent
     \<Rightarrow> error + ('a array \<times> 'a array)" where
  "process_primitive_jvp r H bnd primitive primals tangents =
     (case primitive_jvps r primitive of
        None \<Rightarrow> Inl (NotImplementedError ''Forward-mode differentiation rule not implemented'')
      | Some jvp \<Rightarrow> jvp H bnd primals tangents)"

subsection \<open>Notions used in the statements\<close>

text \<open>
  What \<^verbatim>\<open>Transpose(_, (0, 2, 1))\<close> does to the row-major buffer of an array of
  shape \<open>[L, C, R]\<close>: position \<open>(l, r, c)\<close> of the result holds element
  \<open>(l, c, r)\<close> of the operand.
\<close>

definition swap_inner :: "nat \<Rightarrow> nat \<Rightarrow> nat \<Rightarrow> 'a list \<Rightarrow> 'a list" where
  "swap_inner L C R d =
     map (\<lambda>k. d ! (k div (R * C) * (C * R) + (k mod C * R + k mod (R * C) div C)))
       [0..<L * (R * C)]"

text \<open>
  What \<^verbatim>\<open>transpose((1, 0, 2))\<close> does to the row-major buffer of an array of
  shape \<open>[L, C, R]\<close>: position \<open>(c, l, r)\<close> of the result holds element
  \<open>(l, c, r)\<close> of the operand.
\<close>

definition batch_inward :: "nat \<Rightarrow> nat \<Rightarrow> nat \<Rightarrow> 'a list \<Rightarrow> 'a list" where
  "batch_inward L C R d =
     map (\<lambda>k. d ! (k mod (L * R) div R * (C * R) + (k div (L * R) * R + k mod R)))
       [0..<C * (L * R)]"

text \<open>
  The order the specification states for the kernel's operand buffer, in its own words:
  operand count outermost, batch second, column innermost.
\<close>

definition stated_operand_order :: "nat \<Rightarrow> nat \<Rightarrow> nat \<Rightarrow> 'a list \<Rightarrow> 'a list" where
  "stated_operand_order L C R d =
     concat (map (\<lambda>r. concat (map (\<lambda>l. map (\<lambda>c. d ! ((l * C + c) * R + r)) [0..<C])
                                    [0..<L])) [0..<R])"

subsection \<open>Example inputs\<close>

text \<open>
  A host whose conversions keep the elements and whose kernels hand the operand buffer
  back, and a small system: two nonzeros, two columns.
\<close>

definition echo_host :: "(nat, int) host" where
  "echo_host =
     \<lparr> cast_index = (\<lambda>_ _ x. x), cast_value = (\<lambda>_ _ x. x), zero_index = 0, zero_value = 0,
       klujax_cpp = (\<lambda>p n_col n_lhs n_rhs Anz Ai Aj Ax b. b) \<rparr>"

definition ex_Ai :: "nat array" where
  "ex_Ai = \<lparr> dtype = Int64, shape = [2], data = [0, 1] \<rparr>"

definition ex_Aj :: "nat array" where
  "ex_Aj = \<lparr> dtype = Int64, shape = [2], data = [1, 0] \<rparr>"

definition ex_Ax :: "int array" where
  "ex_Ax = \<lparr> dtype = Float64, shape = [2], data = [2, 3] \<rparr>"

definition ex_b :: "int array" where
  "ex_b = \<lparr> dtype = Float64, shape = [2], data = [4, 9] \<rparr>"

definition ex_dAi :: "nat array" where
  "ex_dAi = \<lparr> dtype = Int64, shape = [2], data = [1, 1] \<rparr>"

definition ex_dAx :: "int array" where
  "ex_dAx = \<lparr> dtype = Float64, shape = [2], data = [1, 1] \<rparr>"

definition ex_db :: "int array" where
  "ex_db = \<lparr> dtype = Float64, shape = [2], data = [5, 6] \<rparr>"

definition ex_b_complex :: "int array" where
  "ex_b_complex = \<lparr> dtype = Complex64, shape = [2], data = [4, 9] \<rparr>"

definition ex_Ax_rank3 :: "int array" where
  "ex_Ax_rank3 = \<lparr> dtype = Float64, shape = [2, 2, 2], data = [1, 2, 3, 4, 5, 6, 7, 8] \<rparr>"

text \<open>
  A host whose kernels fill the result with the element they find at position 2 of the
  operand buffer, and a batch of two systems with two right-hand sides each.
\<close>

definition probe_host :: "(nat, int) host" where
  "probe_host =
     \<lparr> cast_index = (\<lambda>_ _ x. x), cast_value = (\<lambda>_ _ x. x), zero_index = 0, zero_value = 0,
       klujax_cpp = (\<lambda>p n_col n_lhs n_rhs Anz Ai Aj Ax b. map (\<lambda>_. b ! 2) b) \<rparr>"

definition ex_Ax_batched :: "int array" where
  "ex_Ax_batched = \<lparr> dtype = Float64, shape = [2, 2], data = [2, 3, 5, 7] \<rparr>"

definition ex_b_batched :: "int array" where
  "ex_b_batched =
     \<lparr> dtype = Float64, shape = [2, 2, 2], data = [10, 11, 12, 13, 14, 15, 16, 17] \<rparr>"

text \<open>
  A host whose kernels treat the matrix as diagonal, the \<open>k\<close>-th nonzero at
  \<open>(k, k)\<close>: the product kernels multiply each operand element by the nonzero of its
  column and batch, the solve kernels divide by it. With it, inputs for the batching rule.
\<close>

definition diag_host :: "(nat, int) host" where
  "diag_host =
     \<lparr> cast_index = (\<lambda>_ _ x. x), cast_value = (\<lambda>_ _ x. x), zero_index = 0, zero_value = 0,
       klujax_cpp = (\<lambda>p n_col n_lhs n_rhs Anz Ai Aj Ax b.
         map (\<lambda>k. let v = Ax ! (k div (unat n_rhs * unat n_col) * unat Anz + k mod unat n_col) in
                   case p of Coo_mul_vec_f64 \<Rightarrow> v * b ! k
                   | Coo_mul_vec_c128 \<Rightarrow> v * b ! k
                   | _ \<Rightarrow> b ! k div v)
             [0..<length b]) \<rparr>"

definition ex_diag :: "nat array" where
  "ex_diag = \<lparr> dtype = Int32, shape = [2], data = [0, 1] \<rparr>"

definition ex_b_ones :: "int array" where
  "ex_b_ones = \<lparr> dtype = Float64, shape = [2, 2], data = [1, 1, 1, 1] \<rparr>"

definition ex_Ax_batch0 :: "int array" where
  "ex_Ax_batch0 = \<lparr> dtype = Float64, shape = [2], data = [2, 5] \<rparr>"

definition ex_b_batch0 :: "int array" where
  "ex_b_batch0 = \<lparr> dtype = Float64, shape = [2], data = [1, 1] \<rparr>"

definition ex_Ax_2x3 :: "int array" where
  "ex_Ax_2x3 = \<lparr> dtype = Float64, shape = [2, 3], data = [1, 2, 3, 4, 5, 6] \<rparr>"

definition ex_b_3x2 :: "int array" where
  "ex_b_3x2 = \<lparr> dtype = Float64, shape = [3, 2], data = [1, 1, 1, 1, 1, 1] \<rparr>"

definition ex_b_2x3 :: "int array" where
  "ex_b_2x3 = \<lparr> dtype = Float64, shape = [2, 3], data = [1, 2, 3, 4, 5, 6] \<rparr>"

section \<open>Properties\<close>

subsection \<open>Basic facts\<close>

lemma and_then_simps [simp]:
  "and_then (Inl e) f = Inl e" "and_then (Inr x) f = f x"
  by (simp_all add: and_then_def)

lemma and_then_eq_Inr:
  "and_then m f = Inr y \<longleftrightarrow> (\<exists>x. m = Inr x \<and> f x = Inr y)"
  by (cases m) simp_all

lemma is_complex_iff:
  "list_ex (\<lambda>x. dtype x \<in> set COMPLEX_DTYPES) [Ax, b] \<longleftrightarrow>
     dtype Ax \<in> {Complex64, Complex128, Complex256}
     \<or> dtype b \<in> {Complex64, Complex128, Complex256}"
  by (auto simp: COMPLEX_DTYPES_def)

subsection \<open>Differentiation rules\<close>

text \<open>
  Claim C1. The forward rule of solve, with absent tangents replaced by zero buffers of the
  primal's shape, returns the pair \<open>(x, dx)\<close> exactly when \<open>x\<close> is what
  \<^verbatim>\<open>solve(Ai, Aj, Ax, b)\<close> returns and \<open>dx\<close> is what
  \<^verbatim>\<open>solve(Ai, Aj, Ax, db)\<close> returns (and the product with \<open>dAx\<close>, which the rule
  computes and drops, returns at all): \<open>dAx\<close> does not enter \<open>dx\<close>.
\<close>

theorem jvp_resolves_against_rhs_tangent:
  "solve_f64_value_and_jvp H bnd (Ai, Aj, Ax, b) (dAi, dAj, dAx, db) = Inr (x, dx) \<longleftrightarrow>
     solve H bnd Ai Aj Ax b = Inr x \<and>
     solve H bnd Ai Aj Ax
       (case db of Tangent t \<Rightarrow> t | Zero \<Rightarrow> zeros_like_array (zero_value H) b) = Inr dx \<and>
     (\<exists>dA_x. coo_mul_vec H bnd Ai Aj
       (case dAx of Tangent t \<Rightarrow> t | Zero \<Rightarrow> zeros_like_array (zero_value H) Ax) x = Inr dA_x)"
  by (auto simp: solve_f64_value_and_jvp_def Let_def and_then_eq_Inr)

theorem jvp_resolves_against_rhs_tangent_witness:
  "solve_f64_value_and_jvp echo_host (coo_vec_operation_xla echo_host)
     (ex_Ai, ex_Aj, ex_Ax, ex_b) (Zero, Zero, Tangent ex_dAx, Tangent ex_db) = Inr (ex_b, ex_db)"
proof (rule iffD2 [OF jvp_resolves_against_rhs_tangent], intro conjI exI)
  show "solve echo_host (coo_vec_operation_xla echo_host) ex_Ai ex_Aj ex_Ax ex_b = Inr ex_b"
    by code_simp
  show "solve echo_host (coo_vec_operation_xla echo_host) ex_Ai ex_Aj ex_Ax
     (case Tangent ex_db of Tangent t \<Rightarrow> t
      | Zero \<Rightarrow> zeros_like_array (zero_value echo_host) ex_b) = Inr ex_db"
    by code_simp
  show "coo_mul_vec echo_host (coo_vec_operation_xla echo_host) ex_Ai ex_Aj
     (case Tangent ex_dAx of Tangent t \<Rightarrow> t
      | Zero \<Rightarrow> zeros_like_array (zero_value echo_host) ex_Ax) ex_b = Inr ex_b"
    by code_simp
qed

text \<open>
  Claim C2. With \<open>b\<close> the undefined primal, the transpose rule returns what
  \<^verbatim>\<open>solve(Ai, Aj, Ax, ct)\<close> returns, on the same index arrays in the same order, as
  the cotangent of \<open>b\<close>, and \<open>None\<close> for \<open>Ai\<close>, \<open>Aj\<close> and \<open>Ax\<close>; an error
  of that solve is the rule's error.
\<close>

theorem transpose_rule_solves_cotangent:
  "solve_f64_transpose H bnd ct Ai Aj Ax UndefinedPrimal =
     map_sum id (\<lambda>ct_b. (None, None, None, Some ct_b)) (solve H bnd Ai Aj Ax ct)"
  by (cases "solve H bnd Ai Aj Ax ct")
     (simp_all add: solve_f64_transpose_def is_undefined_primal_def)

theorem transpose_rule_solves_cotangent_witness:
  "solve_f64_transpose echo_host (coo_vec_operation_xla echo_host)
     ex_db ex_Ai ex_Aj ex_Ax UndefinedPrimal = Inr (None, None, None, Some ex_db)"
proof -
  have "solve echo_host (coo_vec_operation_xla echo_host) ex_Ai ex_Aj ex_Ax ex_db = Inr ex_db"
    by code_simp
  then show ?thesis
    by (simp add: transpose_rule_solves_cotangent)
qed

text \<open>
  Claim C4, as the code has it. The forward rule takes a tangent on \<open>Ai\<close> or \<open>Aj\<close>
  and drops it: its outcome is the one it has with zero tangents on both index arrays.
  It raises nothing on account of an index tangent.
\<close>

theorem jvp_ignores_index_tangents:
  "solve_f64_value_and_jvp H bnd vals (dAi, dAj, dAx, db) =
     solve_f64_value_and_jvp H bnd vals (Zero, Zero, dAx, db)"
  by (simp add: solve_f64_value_and_jvp_def Let_def split: prod.splits)

text \<open>
  The claim as stated fails: with a nonzero tangent on \<open>Ai\<close> the rule returns a result.
\<close>

theorem jvp_index_tangent_returns:
  "solve_f64_value_and_jvp echo_host (coo_vec_operation_xla echo_host)
     (ex_Ai, ex_Aj, ex_Ax, ex_b) (Tangent ex_dAi, Zero, Zero, Tangent ex_db) = Inr (ex_b, ex_db)"
  by code_simp

text \<open>
  Claim C10. Of the four primitives only \<^verbatim>\<open>solve_f64\<close> has an entry in the table of
  forward rules and in the table of transpose rules. The forward dispatch therefore fails
  for every other primitive, for the primitive a solve call with a complex operand binds,
  and for the primitive any \<^verbatim>\<open>coo_mul_vec\<close> call binds.
\<close>

theorem rules_registered_for_solve_f64_only:
  "(primitive_jvps (klujax_registry :: ('i, 'a) registry) p \<noteq> None \<longleftrightarrow> p = Solve_f64) \<and>
   (primitive_transposes (klujax_registry :: ('i, 'a) registry) p \<noteq> None \<longleftrightarrow> p = Solve_f64) \<and>
   (p \<noteq> Solve_f64 \<longrightarrow>
      process_primitive_jvp klujax_registry (H :: ('i, 'a) host) bnd p primals tangents =
        Inl (NotImplementedError ''Forward-mode differentiation rule not implemented'')) \<and>
   (dtype Ax \<in> {Complex64, Complex128, Complex256}
      \<or> dtype b \<in> {Complex64, Complex128, Complex256} \<longrightarrow>
      solve H (\<lambda>q Ai Aj Ax b.
          process_primitive_jvp klujax_registry H bnd q (Ai, Aj, Ax, b) tangents) Ai Aj Ax b =
        Inl (NotImplementedError ''Forward-mode differentiation rule not implemented'')) \<and>
   coo_mul_vec H (\<lambda>q Ai Aj Ax b.
       process_primitive_jvp klujax_registry H bnd q (Ai, Aj, Ax, b) tangents) Ai Aj Ax b =
     Inl (NotImplementedError ''Forward-mode differentiation rule not implemented'')"
proof -
  have jv: "primitive_jvps (klujax_registry :: ('i, 'a) registry) q \<noteq> None \<longleftrightarrow> q = Solve_f64"
    for q
    by (cases q) (simp_all add: klujax_registry_def vmap_register_def transpose_register_def
        ad_register_def xla_register_cpu_def empty_registry_def)
  have tr: "primitive_transposes (klujax_registry :: ('i, 'a) registry) p \<noteq> None
      \<longleftrightarrow> p = Solve_f64"
    by (cases p) (simp_all add: klujax_registry_def vmap_register_def transpose_register_def
        ad_register_def xla_register_cpu_def empty_registry_def)
  have no: "q \<noteq> Solve_f64 \<Longrightarrow>
     process_primitive_jvp klujax_registry (H :: ('i, 'a) host) bnd q ps ts =
       Inl (NotImplementedError ''Forward-mode differentiation rule not implemented'')"
    for q ps ts
    using jv [of q] by (auto simp: process_primitive_jvp_def split: option.splits)
  show ?thesis
    using jv [of p] tr no
    by (simp add: solve_def coo_mul_vec_def is_complex_iff [simplified] COMPLEX_DTYPES_def)
qed

theorem rules_registered_for_solve_f64_only_witness:
  "primitive_jvps (klujax_registry :: (nat, int) registry) Solve_c128 = None \<and>
   primitive_transposes (klujax_registry :: (nat, int) registry) Solve_c128 = None \<and>
   solve echo_host (\<lambda>q Ai Aj Ax b.
       process_primitive_jvp klujax_registry echo_host (coo_vec_operation_xla echo_host) q
         (Ai, Aj, Ax, b) (Zero, Zero, Zero, Tangent ex_db)) ex_Ai ex_Aj ex_Ax ex_b_complex =
     Inl (NotImplementedError ''Forward-mode differentiation rule not implemented'')"
proof -
  have c: "dtype ex_b_complex \<in> {Complex64, Complex128, Complex256}"
    by (simp add: ex_b_complex_def)
  show ?thesis
    using c rules_registered_for_solve_f64_only [where p = Solve_c128 and H = echo_host
        and b = ex_b_complex and Ax = ex_Ax and Ai = ex_Ai and Aj = ex_Aj
        and bnd = "coo_vec_operation_xla echo_host"
        and tangents = "(Zero, Zero, Zero, Tangent ex_db)"]
    by simp
qed

subsection \<open>The lowering\<close>

text \<open>
  Claim C9. When the matrix values have more than two axes, that is more than one batch
  axis, the lowering fails its first assertion, whatever the kernel is: no kernel result
  enters the outcome.
\<close>

theorem lowering_rejects_two_batch_axes:
  "2 < length (shape Ax) \<Longrightarrow>
     coo_vec_operation_xla H primitive_name Ai Aj Ax b =
       Inl (AssertionError ''solve alows for maximum one batch dimension.'')"
  by (auto simp: coo_vec_operation_xla_def Let_def)

theorem lowering_rejects_two_batch_axes_witness:
  "2 < length (shape ex_Ax_rank3) \<and>
   coo_vec_operation_xla echo_host Solve_f64 ex_Ai ex_Aj ex_Ax_rank3 ex_b =
     Inl (AssertionError ''solve alows for maximum one batch dimension.'')"
proof -
  have h: "2 < length (shape ex_Ax_rank3)"
    by code_simp
  show ?thesis
    using h lowering_rejects_two_batch_axes [OF h] by simp
qed

text \<open>The explicit form of a lowering that passes its checks.\<close>

lemma upt_3: "[0..<3] = [0, 1, 2]"
  by (simp add: eval_nat_numeral)

lemma is_permutation_021: "is_permutation [0, 2, Suc 0] (Suc (Suc (Suc 0)))"
  by (simp add: is_permutation_def)

lemma permute_axes_021:
  assumes "shape a = [L, C, R]"
  shows "permute_axes a [0, 2, Suc 0] =
    \<lparr> dtype = dtype a, shape = [L, R, C], data = swap_inner L C R (data a) \<rparr>"
  using assms
  by (simp add: permute_axes_def Let_def upt_3 index_of_def mod_mod_cancel swap_inner_def)

lemma xla_Transpose_021:
  "shape a = [L, C, R] \<Longrightarrow> xla_Transpose a [0, 2, Suc 0] =
    Inr \<lparr> dtype = dtype a, shape = [L, R, C], data = swap_inner L C R (data a) \<rparr>"
  by (simp add: xla_Transpose_def is_permutation_021 permute_axes_021)

lemma lowering_explicit:
  assumes Ax: "shape Ax = ls @ [Anz]" and ls: "length ls < 2" and b: "shape b = ls @ C # rs"
  shows "coo_vec_operation_xla H p Ai Aj Ax b =
     Inr \<lparr> dtype = dtype b, shape = shape b,
           data = swap_inner (prod_list ls) (prod_list rs) C
                    (klujax_cpp H p (of_nat C) (of_nat (prod_list ls)) (of_nat (prod_list rs))
                       (of_nat Anz) (data Ai) (data Aj) (data Ax)
                       (swap_inner (prod_list ls) C (prod_list rs) (data b))) \<rparr>"
proof (cases ls)
  case Nil
  then show ?thesis
    using Ax b
    by (simp add: coo_vec_operation_xla_def Let_def unpack_b_shape_def xla_Reshape_def
        xla_Transpose_021 CustomCallWithLayout_def ac_simps)
next
  case (Cons L ls')
  with ls have ls': "ls = [L]" by simp
  show ?thesis
    using Ax b unfolding ls'
    by (simp add: coo_vec_operation_xla_def Let_def unpack_b_shape_def xla_Reshape_def
        xla_Transpose_021 CustomCallWithLayout_def ac_simps)
qed

lemma idx3:
  fixes l r c R C :: nat
  assumes "r < R" "c < C"
  shows "((l * R + r) * C + c) div (R * C) = l"
    and "((l * R + r) * C + c) mod C = c"
    and "((l * R + r) * C + c) mod (R * C) div C = r"
proof -
  have e: "(l * R + r) * C + c = l * (R * C) + (r * C + c)"
    by (simp add: algebra_simps)
  have "r * C + c < R * C"
  proof -
    have "r * C + c < r * C + C" using assms by simp
    also have "\<dots> = (Suc r) * C" by simp
    also have "\<dots> \<le> R * C" using assms by (intro mult_le_mono1) simp
    finally show ?thesis .
  qed
  then have lt: "r * C + c < R * C"
    by simp
  have pos: "R * C \<noteq> 0"
    using assms by simp
  show "((l * R + r) * C + c) div (R * C) = l"
    unfolding e using lt pos by (simp add: div_mult_self3)
  show "((l * R + r) * C + c) mod C = c"
    using assms by simp
  have "((l * R + r) * C + c) mod (R * C) = r * C + c"
    unfolding e using lt by (simp add: mod_mult_self3)
  then show "((l * R + r) * C + c) mod (R * C) div C = r"
    using assms by simp
qed

lemma idx3_bound: "l < L \<Longrightarrow> r < R \<Longrightarrow> c < C \<Longrightarrow> (l * R + r) * C + c < L * (R * C)"
  for l r c L R C :: nat
proof -
  assume a: "l < L" "r < R" "c < C"
  have "(l * R + r) * C + c < (l * R + r) * C + C" using a by simp
  also have "\<dots> = (l * R + Suc r) * C" by (simp add: algebra_simps)
  also have "\<dots> \<le> (l * R + R) * C" using a by (intro mult_le_mono1) simp
  also have "\<dots> = Suc l * (R * C)" by (simp add: algebra_simps)
  also have "\<dots> \<le> L * (R * C)" using a by (intro mult_le_mono1) simp
  finally show ?thesis .
qed

lemma swap_inner_nth:
  assumes "l < L" "r < R" "c < C"
  shows "swap_inner L C R d ! ((l * R + r) * C + c) = d ! ((l * C + c) * R + r)"
proof -
  have "swap_inner L C R d ! ((l * R + r) * C + c) = d ! (l * (C * R) + (c * R + r))"
    using idx3_bound [OF assms] assms by (simp add: swap_inner_def idx3)
  also have "l * (C * R) + (c * R + r) = (l * C + c) * R + r"
    by (simp add: algebra_simps)
  finally show ?thesis .
qed

lemma length_swap_inner [simp]: "length (swap_inner L C R d) = L * (R * C)"
  by (simp add: swap_inner_def)

lemma and_then_eq_Inl:
  "and_then m f = Inl e \<longleftrightarrow> m = Inl e \<or> (\<exists>x. m = Inr x \<and> f x = Inl e)"
  by (cases m) simp_all

lemma unpack_b_shape_Inr:
  "unpack_b_shape ls dims = Inr (n, C, rs) \<Longrightarrow> dims = (if ls = [] then C # rs else n # C # rs) \<and> (ls = [] \<longrightarrow> n = 1)"
  by (auto simp: unpack_b_shape_def split: if_splits list.splits)

lemma lowering_error_shapes:
  assumes "coo_vec_operation_xla H p Ai Aj Ax b = Inl e"
    and "shape Ax' = shape Ax" and "shape b' = shape b"
  shows "coo_vec_operation_xla H' p' Ai' Aj' Ax' b' = Inl e"
proof (cases "shape Ax = [] \<or> \<not> length (butlast (shape Ax)) < 2")
  case True
  then show ?thesis
    using assms by (auto simp: coo_vec_operation_xla_def Let_def)
next
  case False
  define ls where "ls = butlast (shape Ax)"
  define Anz where "Anz = last (shape Ax)"
  have Ax: "shape Ax = ls @ [Anz]" and ls: "length ls < 2"
    using False by (simp_all add: ls_def Anz_def)
  show ?thesis
  proof (cases "unpack_b_shape ls (shape b)")
    case (Inl e')
    then show ?thesis
      using assms Ax ls
      by (simp add: coo_vec_operation_xla_def Let_def xla_Reshape_def)
  next
    case (Inr t)
    obtain n C rs where t: "t = (n, C, rs)" by (cases t)
    show ?thesis
    proof (cases "n = prod_list ls")
      case True
      have "shape b = ls @ C # rs"
        using unpack_b_shape_Inr [OF Inr [unfolded t]] True ls
        by (cases ls) (auto split: if_splits)
      from lowering_explicit [OF Ax ls this, of H p Ai Aj] assms(1) show ?thesis by simp
    next
      case False
      then show ?thesis
        using assms Ax ls Inr t
        by (simp add: coo_vec_operation_xla_def Let_def xla_Reshape_def)
    qed
  qed
qed

lemma xla_result_dtype:
  "coo_vec_operation_xla H p Ai Aj Ax b = Inr r \<Longrightarrow> dtype r = dtype b"
  by (auto simp: coo_vec_operation_xla_def Let_def and_then_eq_Inr xla_Reshape_def xla_Transpose_def
      unpack_b_shape_def CustomCallWithLayout_def permute_axes_def split: if_splits list.splits)

lemma astype_simps [simp]:
  "dtype (astype H a dt) = dt" "shape (astype H a dt) = shape a"
  "dtype (astype_index H i dt) = dt" "shape (astype_index H i dt) = shape i"
  by (simp_all add: astype_def astype_index_def)

lemma solve_error_dtype:
  assumes "solve H (coo_vec_operation_xla H) Ai Aj Ax b = Inl e"
  shows "solve H (coo_vec_operation_xla H) Ai Aj (Ax\<lparr>dtype := d1\<rparr>) (b\<lparr>dtype := d2\<rparr>) = Inl e"
proof -
  obtain p Ai' Aj' Ax' b' where 1: "coo_vec_operation_xla H p Ai' Aj' Ax' b' = Inl e"
    and 2: "shape Ax' = shape Ax" "shape b' = shape b"
    using assms unfolding solve_def by (auto split: if_splits)
  show ?thesis
    unfolding solve_def
    by (auto intro!: lowering_error_shapes [OF 1] simp: 2)
qed


lemma coo_mul_vec_error_dtype:
  assumes "coo_mul_vec H (coo_vec_operation_xla H) Ai Aj Ax b = Inl e"
  shows "coo_mul_vec H (coo_vec_operation_xla H) Ai Aj (Ax\<lparr>dtype := d1\<rparr>) (b\<lparr>dtype := d2\<rparr>) = Inl e"
proof -
  obtain p Ai' Aj' Ax' b' where 1: "coo_vec_operation_xla H p Ai' Aj' Ax' b' = Inl e"
    and 2: "shape Ax' = shape Ax" "shape b' = shape b"
    using assms unfolding coo_mul_vec_def by (auto split: if_splits)
  show ?thesis
    unfolding coo_mul_vec_def
    by (auto intro!: lowering_error_shapes [OF 1] simp: 2)
qed

text \<open>
  Claim C7, as the code has it. For matrix values of shape \<open>[batch?, nnz]\<close> and an operand
  of shape \<open>[batch?, n_cols, ...trailing]\<close> with the same batch count, the kernel is called
  on the buffer of the matrix values (\<open>batch * nnz\<close> elements) and on a flat operand
  buffer of \<open>batch * operand_count * n_cols\<close> elements, laid out batch-major,
  operand-count second, column-minor: position \<open>(l * n_rhs + r) * n_cols + c\<close> holds the
  operand's element \<open>(l, c, r)\<close>. The result is the kernel's output reordered back, with
  the shape and the element type of the operand.
\<close>

theorem lowering_layout:
  assumes "shape Ax = ls @ [Anz]" and "length ls < 2" and "shape b = ls @ C # rs"
  shows "\<exists>flat out res.
     length flat = prod_list ls * prod_list rs * C \<and>
     (\<forall>l<prod_list ls. \<forall>r<prod_list rs. \<forall>c<C.
        flat ! ((l * prod_list rs + r) * C + c) = data b ! ((l * C + c) * prod_list rs + r)) \<and>
     (wf_array Ax \<longrightarrow> length (data Ax) = prod_list ls * Anz) \<and>
     out = klujax_cpp H p (of_nat C) (of_nat (prod_list ls)) (of_nat (prod_list rs)) (of_nat Anz)
             (data Ai) (data Aj) (data Ax) flat \<and>
     coo_vec_operation_xla H p Ai Aj Ax b = Inr res \<and>
     shape res = shape b \<and> dtype res = dtype b \<and>
     length (data res) = prod_list (shape b) \<and>
     (\<forall>l<prod_list ls. \<forall>c<C. \<forall>r<prod_list rs.
        data res ! ((l * C + c) * prod_list rs + r) = out ! ((l * prod_list rs + r) * C + c))"
proof (intro exI conjI)
  let ?L = "prod_list ls" and ?R = "prod_list rs"
  let ?flat = "swap_inner ?L C ?R (data b)"
  let ?out = "klujax_cpp H p (of_nat C) (of_nat ?L) (of_nat ?R) (of_nat Anz)
             (data Ai) (data Aj) (data Ax) ?flat"
  let ?res = "\<lparr> dtype = dtype b, shape = shape b, data = swap_inner ?L ?R C ?out \<rparr>"
  show "length ?flat = ?L * ?R * C" by simp
  show "\<forall>l<?L. \<forall>r<?R. \<forall>c<C. ?flat ! ((l * ?R + r) * C + c) = data b ! ((l * C + c) * ?R + r)"
    by (simp add: swap_inner_nth)
  show "wf_array Ax \<longrightarrow> length (data Ax) = ?L * Anz"
    using assms(1) by (simp add: wf_array_def)
  show "?out = ?out" ..
  show "coo_vec_operation_xla H p Ai Aj Ax b = Inr ?res"
    by (rule lowering_explicit [OF assms])
  show "shape ?res = shape b" "dtype ?res = dtype b" by simp_all
  show "length (data ?res) = prod_list (shape b)"
    using assms(3) by (simp add: ac_simps)
  show "\<forall>l<?L. \<forall>c<C. \<forall>r<?R. data ?res ! ((l * C + c) * ?R + r) = ?out ! ((l * ?R + r) * C + c)"
    by (simp add: swap_inner_nth)
qed


theorem lowering_layout_witness:
  "\<exists>res. coo_vec_operation_xla echo_host Solve_f64 ex_Ai ex_Aj ex_Ax_batched ex_b_batched = Inr res \<and>
     shape res = [2, 2, 2] \<and> dtype res = Float64 \<and> length (data res) = 8"
proof -
  have 1: "shape ex_Ax_batched = [2] @ [2]" by (simp add: ex_Ax_batched_def)
  have 2: "length [2::nat] < 2" by simp
  have 3: "shape ex_b_batched = [2] @ 2 # [2]" by (simp add: ex_b_batched_def)
  from lowering_layout [OF 1 2 3, of echo_host Solve_f64 ex_Ai ex_Aj]
  obtain res where "coo_vec_operation_xla echo_host Solve_f64 ex_Ai ex_Aj ex_Ax_batched ex_b_batched = Inr res"
    "shape res = shape ex_b_batched" "dtype res = dtype ex_b_batched"
    "length (data res) = prod_list (shape ex_b_batched)"
    by blast
  then show ?thesis
    by (simp add: ex_b_batched_def)
qed


text \<open>
  The order the claim states (operand count outermost, batch second) is not the order of
  the code. For two systems with two right-hand sides the kernel finds at position 2 the
  element \<open>(0, 0, 1)\<close> of the operand, 11, where the stated order has the element
  \<open>(1, 0, 0)\<close>, 14.
\<close>

theorem operand_order_not_as_stated:
  "coo_vec_operation_xla probe_host Solve_f64 ex_Ai ex_Aj ex_Ax_batched ex_b_batched =
     Inr \<lparr> dtype = Float64, shape = [2, 2, 2], data = [11, 11, 11, 11, 11, 11, 11, 11] \<rparr> \<and>
   stated_operand_order 2 2 2 (data ex_b_batched) ! 2 = 14"
  by code_simp


subsection \<open>Choice of the kernel by element type\<close>

text \<open>
  Claim C5. If the matrix values or the operand have a complex element type, solve and
  coo_mul_vec bind the complex128 primitive on both buffers cast to complex128 and the
  indices cast to int32, and a result of the lowering is complex128; otherwise they bind
  the float64 primitive on both buffers cast to float64 and the indices cast to int32, and
  a result is float64. The two functions do nothing but that bind, and an error of the
  lowering is the same whatever the element types of the two buffers are: no error comes
  from the element types.
\<close>

theorem element_type_dispatch:
  "(dtype Ax \<in> {Complex64, Complex128, Complex256} \<or> dtype b \<in> {Complex64, Complex128, Complex256} \<longrightarrow>
      solve H bnd Ai Aj Ax b =
        bnd Solve_c128 (astype_index H Ai Int32) (astype_index H Aj Int32)
          (astype H Ax Complex128) (astype H b Complex128) \<and>
      coo_mul_vec H bnd Ai Aj Ax b =
        bnd Coo_mul_vec_c128 (astype_index H Ai Int32) (astype_index H Aj Int32)
          (astype H Ax Complex128) (astype H b Complex128) \<and>
      (\<forall>r. solve H (coo_vec_operation_xla H) Ai Aj Ax b = Inr r \<longrightarrow> dtype r = Complex128) \<and>
      (\<forall>r. coo_mul_vec H (coo_vec_operation_xla H) Ai Aj Ax b = Inr r \<longrightarrow> dtype r = Complex128)) \<and>
   (\<not> (dtype Ax \<in> {Complex64, Complex128, Complex256} \<or> dtype b \<in> {Complex64, Complex128, Complex256}) \<longrightarrow>
      solve H bnd Ai Aj Ax b =
        bnd Solve_f64 (astype_index H Ai Int32) (astype_index H Aj Int32)
          (astype H Ax Float64) (astype H b Float64) \<and>
      coo_mul_vec H bnd Ai Aj Ax b =
        bnd Coo_mul_vec_f64 (astype_index H Ai Int32) (astype_index H Aj Int32)
          (astype H Ax Float64) (astype H b Float64) \<and>
      (\<forall>r. solve H (coo_vec_operation_xla H) Ai Aj Ax b = Inr r \<longrightarrow> dtype r = Float64) \<and>
      (\<forall>r. coo_mul_vec H (coo_vec_operation_xla H) Ai Aj Ax b = Inr r \<longrightarrow> dtype r = Float64)) \<and>
   dtype (astype_index H Ai Int32) = Int32 \<and> dtype (astype_index H Aj Int32) = Int32 \<and>
   dtype (astype H Ax Complex128) = Complex128 \<and> dtype (astype H b Complex128) = Complex128 \<and>
   dtype (astype H Ax Float64) = Float64 \<and> dtype (astype H b Float64) = Float64 \<and>
   (\<forall>e d1 d2.
      solve H (coo_vec_operation_xla H) Ai Aj Ax b = Inl e \<longrightarrow>
      solve H (coo_vec_operation_xla H) Ai Aj (Ax\<lparr>dtype := d1\<rparr>) (b\<lparr>dtype := d2\<rparr>) = Inl e) \<and>
   (\<forall>e d1 d2.
      coo_mul_vec H (coo_vec_operation_xla H) Ai Aj Ax b = Inl e \<longrightarrow>
      coo_mul_vec H (coo_vec_operation_xla H) Ai Aj (Ax\<lparr>dtype := d1\<rparr>) (b\<lparr>dtype := d2\<rparr>) = Inl e)"
  (is "(?cplx \<longrightarrow> ?A1 \<and> ?A2 \<and> ?A3 \<and> ?A4) \<and> (\<not> ?cplx \<longrightarrow> ?B1 \<and> ?B2 \<and> ?B3 \<and> ?B4) \<and> ?C \<and> ?D")
proof -
  have sel: "list_ex (\<lambda>x. dtype x \<in> set COMPLEX_DTYPES) [Ax, b] = ?cplx"
    by (rule is_complex_iff)
  have A: "?cplx \<longrightarrow> ?A1 \<and> ?A2 \<and> ?A3 \<and> ?A4"
  proof (intro impI conjI allI)
    assume c: ?cplx
    show ?A1 unfolding solve_def sel using c by simp
    show ?A2 unfolding coo_mul_vec_def sel using c by simp
    fix r
    assume "solve H (coo_vec_operation_xla H) Ai Aj Ax b = Inr r"
    then have "coo_vec_operation_xla H Solve_c128 (astype_index H Ai Int32)
        (astype_index H Aj Int32) (astype H Ax Complex128) (astype H b Complex128) = Inr r"
      unfolding solve_def sel using c by simp
    from xla_result_dtype [OF this] show "dtype r = Complex128" by simp
  next
    fix r
    assume c: ?cplx
    assume "coo_mul_vec H (coo_vec_operation_xla H) Ai Aj Ax b = Inr r"
    then have "coo_vec_operation_xla H Coo_mul_vec_c128 (astype_index H Ai Int32)
        (astype_index H Aj Int32) (astype H Ax Complex128) (astype H b Complex128) = Inr r"
      unfolding coo_mul_vec_def sel using c by simp
    from xla_result_dtype [OF this] show "dtype r = Complex128" by simp
  qed
  have B: "\<not> ?cplx \<longrightarrow> ?B1 \<and> ?B2 \<and> ?B3 \<and> ?B4"
  proof (intro impI conjI allI)
    assume c: "\<not> ?cplx"
    show ?B1 unfolding solve_def sel using c by simp
    show ?B2 unfolding coo_mul_vec_def sel using c by simp
    fix r
    assume "solve H (coo_vec_operation_xla H) Ai Aj Ax b = Inr r"
    then have "coo_vec_operation_xla H Solve_f64 (astype_index H Ai Int32)
        (astype_index H Aj Int32) (astype H Ax Float64) (astype H b Float64) = Inr r"
      unfolding solve_def sel using c by simp
    from xla_result_dtype [OF this] show "dtype r = Float64" by simp
  next
    fix r
    assume c: "\<not> ?cplx"
    assume "coo_mul_vec H (coo_vec_operation_xla H) Ai Aj Ax b = Inr r"
    then have "coo_vec_operation_xla H Coo_mul_vec_f64 (astype_index H Ai Int32)
        (astype_index H Aj Int32) (astype H Ax Float64) (astype H b Float64) = Inr r"
      unfolding coo_mul_vec_def sel using c by simp
    from xla_result_dtype [OF this] show "dtype r = Float64" by simp
  qed
  have C: ?C
    by simp
  have D: ?D
    by (intro conjI allI impI solve_error_dtype coo_mul_vec_error_dtype astype_simps)
  show ?thesis
    by (rule conjI [OF A conjI [OF B conjI [OF C D]]])
qed

theorem element_type_dispatch_witness:
  "dtype ex_Ax = Float64 \<and> dtype ex_b_complex = Complex64 \<and>
   solve echo_host (coo_vec_operation_xla echo_host) ex_Ai ex_Aj ex_Ax ex_b_complex =
     coo_vec_operation_xla echo_host Solve_c128
       (astype_index echo_host ex_Ai Int32) (astype_index echo_host ex_Aj Int32)
       (astype echo_host ex_Ax Complex128) (astype echo_host ex_b_complex Complex128) \<and>
   solve echo_host (coo_vec_operation_xla echo_host) ex_Ai ex_Aj ex_Ax ex_b_complex =
     Inr \<lparr> dtype = Complex128, shape = [2], data = [4, 9] \<rparr>"
proof -
  have c: "dtype ex_Ax \<in> {Complex64, Complex128, Complex256}
      \<or> dtype ex_b_complex \<in> {Complex64, Complex128, Complex256}"
    by (simp add: ex_b_complex_def)
  have d: "dtype ex_Ax = Float64" "dtype ex_b_complex = Complex64"
    by (simp_all add: ex_Ax_def ex_b_complex_def)
  have s: "solve echo_host (coo_vec_operation_xla echo_host) ex_Ai ex_Aj ex_Ax ex_b_complex =
     coo_vec_operation_xla echo_host Solve_c128
       (astype_index echo_host ex_Ai Int32) (astype_index echo_host ex_Aj Int32)
       (astype echo_host ex_Ax Complex128) (astype echo_host ex_b_complex Complex128)"
    using c element_type_dispatch [of ex_Ax ex_b_complex echo_host
        "coo_vec_operation_xla echo_host" ex_Ai ex_Aj]
    by blast
  have e: "coo_vec_operation_xla echo_host Solve_c128
       (astype_index echo_host ex_Ai Int32) (astype_index echo_host ex_Aj Int32)
       (astype echo_host ex_Ax Complex128) (astype echo_host ex_b_complex Complex128) =
     Inr \<lparr> dtype = Complex128, shape = [2], data = [4, 9] \<rparr>"
    by code_simp
  show ?thesis
    using d s e by simp
qed

subsection \<open>Array operations\<close>

lemma ravel_unravel: "k < prod_list shp \<Longrightarrow> ravel shp (unravel shp k) = k"
proof (induction shp arbitrary: k)
  case Nil
  then show ?case by simp
next
  case (Cons d ds)
  have pos: "0 < prod_list ds" using Cons.prems by (cases "prod_list ds = 0") auto
  then have "k mod prod_list ds < prod_list ds" by simp
  then have "ravel ds (unravel ds (k mod prod_list ds)) = k mod prod_list ds"
    by (rule Cons.IH)
  then show ?case by simp
qed

lemma length_unravel [simp]: "length (unravel shp k) = length shp"
  by (induction shp arbitrary: k) simp_all

lemma index_of_upt: "ax < n \<Longrightarrow> index_of [0..<n] ax = ax"
proof -
  assume "ax < n"
  then have "[0..<n] = [0..<ax] @ ax # [Suc ax..<n]"
    by (metis less_imp_le_nat upt_add_eq_append upt_conv_Cons le_add_diff_inverse zero_le add_0)
  moreover have "takeWhile (\<lambda>p. p \<noteq> ax) ([0..<ax] @ ax # [Suc ax..<n]) = [0..<ax]"
    by (subst takeWhile_append2) simp_all
  ultimately show ?thesis
    by (simp add: index_of_def)
qed

lemma is_permutation_I:
  "distinct perm \<Longrightarrow> set perm = {0..<n} \<Longrightarrow> is_permutation perm n"
  unfolding is_permutation_def
  by (rule sorted_distinct_set_unique) simp_all

lemma is_permutation_upt: "is_permutation [0..<n] n"
  by (rule is_permutation_I) simp_all

lemma permute_axes_id:
  assumes "wf_array a"
  shows "permute_axes a [0..<length (shape a)] = a"
proof -
  let ?n = "length (shape a)"
  have shp: "map (\<lambda>p. shape a ! p) [0..<?n] = shape a"
    by (rule map_nth)
  have idx: "map (\<lambda>ax. unravel (shape a) k ! index_of [0..<?n] ax) [0..<?n] = unravel (shape a) k" for k
  proof -
    have "map (\<lambda>ax. unravel (shape a) k ! index_of [0..<?n] ax) [0..<?n]
        = map (\<lambda>ax. unravel (shape a) k ! ax) [0..<?n]"
      by (rule map_cong) (simp_all add: index_of_upt)
    also have "\<dots> = unravel (shape a) k"
      using map_nth [of "unravel (shape a) k"] by simp
    finally show ?thesis .
  qed
  have "map (\<lambda>k. data a ! ravel (shape a) (unravel (shape a) k)) [0..<prod_list (shape a)]
      = map (\<lambda>k. data a ! k) [0..<prod_list (shape a)]"
    by (rule map_cong) (simp_all add: ravel_unravel)
  also have "\<dots> = data a"
    using assms map_nth [of "data a"] by (simp add: wf_array_def)
  finally show ?thesis
    by (simp add: permute_axes_def Let_def shp idx)
qed

lemma filter_neq_0_upt: "0 < n \<Longrightarrow> 0 # filter (\<lambda>k. k \<noteq> 0) [0..<n] = [0..<n]"
proof -
  assume n: "0 < n"
  have f: "filter (\<lambda>k. k \<noteq> 0) [Suc 0..<n] = [Suc 0..<n]"
    by (rule filter_True) auto
  have u: "[0..<n] = 0 # [Suc 0..<n]"
    using n by (rule upt_conv_Cons)
  have "filter (\<lambda>k. k \<noteq> 0) [0..<n] = [Suc 0..<n]"
    by (subst u) (simp only: filter.simps f, simp)
  then show ?thesis
    using u by simp
qed

lemma jnp_moveaxis_0_0:
  assumes "wf_array a" and "0 < length (shape a)"
  shows "jnp_moveaxis a 0 0 = Inr a"
proof -
  let ?n = "length (shape a)"
  have p: "take 0 (filter (\<lambda>k. k \<noteq> 0) [0..<?n]) @ [0] @ drop 0 (filter (\<lambda>k. k \<noteq> 0) [0..<?n])
      = [0..<?n]"
    using filter_neq_0_upt [OF assms(2)] by simp
  have "jnp_moveaxis a 0 0 = jnp_transpose a [0..<?n]"
    unfolding jnp_moveaxis_def Let_def p using assms(2) by simp
  also have "\<dots> = Inr a"
    by (simp add: jnp_transpose_def is_permutation_upt permute_axes_id [OF assms(1)])
  finally show ?thesis .
qed

lemma jnp_moveaxis_front:
  assumes "src < length (shape a)"
  shows "jnp_moveaxis a src 0 =
     Inr (permute_axes a (src # filter (\<lambda>k. k \<noteq> src) [0..<length (shape a)]))"
proof -
  have "is_permutation (src # filter (\<lambda>k. k \<noteq> src) [0..<length (shape a)]) (length (shape a))"
    using assms by (intro is_permutation_I) auto
  moreover have "0 < length (shape a)"
    using assms by (cases "shape a") simp_all
  ultimately show ?thesis
    using assms unfolding jnp_moveaxis_def jnp_transpose_def Let_def by simp
qed

lemma permute_axes_simps [simp]:
  "dtype (permute_axes a perm) = dtype a"
  "shape (permute_axes a perm) = map (\<lambda>p. shape a ! p) perm"
  by (simp_all add: permute_axes_def Let_def)

lemma unravel_less:
  "k < prod_list shp \<Longrightarrow> i < length shp \<Longrightarrow> unravel shp k ! i < shp ! i"
proof (induction shp arbitrary: k i)
  case Nil
  then show ?case by simp
next
  case (Cons d ds)
  have pos: "0 < prod_list ds" using Cons.prems(1) by (cases "prod_list ds = 0") auto
  show ?case
  proof (cases i)
    case 0
    have "k < d * prod_list ds" using Cons.prems(1) by simp
    then have "k div prod_list ds < d" by (rule less_mult_imp_div_less)
    then show ?thesis using 0 by simp
  next
    case (Suc j)
    have "k mod prod_list ds < prod_list ds" using pos by simp
    from Cons.IH [OF this, of j] Cons.prems(2) Suc show ?thesis by simp
  qed
qed

lemma map2_squeeze:
  "k < prod_list shp \<Longrightarrow>
     map2 (\<lambda>d i. if d = Suc 0 then 0 else i) shp (unravel shp k) = unravel shp k"
proof (rule nth_equalityI)
  show "length (map2 (\<lambda>d i. if d = Suc 0 then 0 else i) shp (unravel shp k)) = length (unravel shp k)"
    by simp
next
  fix i
  assume k: "k < prod_list shp"
    and "i < length (map2 (\<lambda>d i. if d = Suc 0 then 0 else i) shp (unravel shp k))"
  then have i: "i < length shp" by simp
  from unravel_less [OF k i] show
    "map2 (\<lambda>d i. if d = Suc 0 then 0 else i) shp (unravel shp k) ! i = unravel shp k ! i"
    using i by auto
qed

lemma map_mod_replicate:
  "map (\<lambda>k. xs ! (k mod length xs)) [0..<n * length xs] = concat (replicate n xs)"
proof (induction n)
  case 0
  then show ?case by simp
next
  case (Suc n)
  let ?P = "length xs"
  have a: "[0..<Suc n * ?P] = [0..<n * ?P] @ map (\<lambda>j. n * ?P + j) [0..<?P]"
  proof -
    have "[0..<n * ?P + ?P] = [0..<n * ?P] @ [n * ?P..<n * ?P + ?P]"
      by (rule upt_add_eq_append) simp
    moreover have "[n * ?P..<n * ?P + ?P] = map (\<lambda>j. n * ?P + j) [0..<?P]"
      using map_add_upt [of "n * ?P" ?P] by (simp add: add.commute)
    ultimately show ?thesis by (simp add: add.commute)
  qed
  have b: "map (\<lambda>k. xs ! (k mod ?P)) (map (\<lambda>j. n * ?P + j) [0..<?P]) = xs"
  proof -
    have "map (\<lambda>k. xs ! (k mod ?P)) (map (\<lambda>j. n * ?P + j) [0..<?P]) = map (\<lambda>j. xs ! j) [0..<?P]"
      by (simp add: comp_def)
    then show ?thesis by (simp add: map_nth)
  qed
  have c: "concat (replicate (Suc n) xs) = concat (replicate n xs) @ xs"
  proof -
    have "replicate (Suc n) xs = replicate n xs @ [xs]"
      by (simp add: replicate_append_same)
    then show ?thesis
      by (simp only: concat_append) simp
  qed
  show ?case
    unfolding a c map_append b Suc.IH ..
qed

lemma broadcast_new_axis:
  assumes "wf_array b"
  shows "jnp_broadcast_to (expand_dims b) (n # shape b) =
     Inr \<lparr> dtype = dtype b, shape = n # shape b, data = concat (replicate n (data b)) \<rparr>"
proof -
  let ?P = "prod_list (shape b)"
  have len: "length (data b) = ?P"
    using assms by (simp add: wf_array_def)
  have ok: "list_all2 (\<lambda>d t. d = t \<or> d = Suc 0) (shape b) (shape b)"
    by (simp add: list_all2_same)
  have "map (\<lambda>k. data b ! ravel (1 # shape b)
             (map2 (\<lambda>d i. if d = 1 then 0 else i) (1 # shape b) (unravel (n # shape b) k)))
          [0..<n * ?P]
      = map (\<lambda>k. data b ! (k mod ?P)) [0..<n * ?P]"
  proof (rule map_cong [OF refl])
    fix k
    assume "k \<in> set [0..<n * ?P]"
    then have "0 < ?P" by (cases "?P = 0") auto
    then have m: "k mod ?P < ?P" by simp
    show "data b ! ravel (1 # shape b)
             (map2 (\<lambda>d i. if d = 1 then 0 else i) (1 # shape b) (unravel (n # shape b) k))
        = data b ! (k mod ?P)"
      by (simp add: map2_squeeze [OF m] ravel_unravel [OF m])
  qed
  also have "\<dots> = concat (replicate n (data b))"
    using map_mod_replicate [of "data b" n] by (simp add: len)
  finally show ?thesis
    by (simp add: jnp_broadcast_to_def expand_dims_def Let_def ok)
qed

subsection \<open>The batching rule\<close>

lemma shape_at_ok: "k < length (shape a) \<Longrightarrow> shape_at a k = Inr (shape a ! k)"
  by (simp add: shape_at_def)

text \<open>
  Claim C8. When only the matrix values carry a batch axis, the rule moves that axis to
  position 0, repeats the operand once per batch element along a new leading axis, calls
  the operation on the two, and reports batch axis 0 for the result.
\<close>

theorem only_Ax_batched:
  assumes "wf_array Ax" and "wf_array b" and "aAx < length (shape Ax)"
  shows "\<exists>Ax'. jnp_moveaxis Ax aAx 0 = Inr Ax' \<and>
     shape Ax' = shape Ax ! aAx #
       map (\<lambda>k. shape Ax ! k) (filter (\<lambda>k. k \<noteq> aAx) [0..<length (shape Ax)]) \<and>
     coo_vec_operation_vmap operation (Ai, Aj, Ax, b) (None, None, Some aAx, None) =
       and_then (operation Ai Aj Ax'
           \<lparr> dtype = dtype b, shape = (shape Ax ! aAx) # shape b,
             data = concat (replicate (shape Ax ! aAx) (data b)) \<rparr>)
         (\<lambda>result. Inr (result, 0))"
proof -
  let ?perm = "aAx # filter (\<lambda>k. k \<noteq> aAx) [0..<length (shape Ax)]"
  let ?Ax' = "permute_axes Ax ?perm"
  have mv: "jnp_moveaxis Ax aAx 0 = Inr ?Ax'"
    by (rule jnp_moveaxis_front [OF assms(3)])
  have shp: "shape ?Ax' = shape Ax ! aAx #
       map (\<lambda>k. shape Ax ! k) (filter (\<lambda>k. k \<noteq> aAx) [0..<length (shape Ax)])"
    by simp
  have at0: "shape_at ?Ax' 0 = Inr (shape Ax ! aAx)"
    by (simp add: shape_at_def)
  have "coo_vec_operation_vmap operation (Ai, Aj, Ax, b) (None, None, Some aAx, None) =
       and_then (operation Ai Aj ?Ax'
           \<lparr> dtype = dtype b, shape = (shape Ax ! aAx) # shape b,
             data = concat (replicate (shape Ax ! aAx) (data b)) \<rparr>)
         (\<lambda>result. Inr (result, 0))"
  proof (cases "aAx = 0")
    case True
    have eq: "?Ax' = Ax"
      using jnp_moveaxis_0_0 [OF assms(1)] assms(3) mv True by simp
    show ?thesis
      unfolding coo_vec_operation_vmap_def eq
      using True assms(3)
      by (simp add: shape_at_def broadcast_new_axis [OF assms(2)])
  next
    case False
    show ?thesis
      unfolding coo_vec_operation_vmap_def
      using False
      by (simp add: shape_at_ok [OF assms(3)] mv at0 broadcast_new_axis [OF assms(2)])
  qed
  with mv shp show ?thesis by blast
qed

theorem only_Ax_batched_witness:
  "coo_vec_operation_vmap (coo_mul_vec diag_host (coo_vec_operation_xla diag_host))
     (ex_diag, ex_diag, ex_Ax_2x3, ex_b) (None, None, Some 1, None) =
     Inr (\<lparr> dtype = Float64, shape = [3, 2], data = [4, 36, 8, 45, 12, 54] \<rparr>, 0) \<and>
   (\<exists>Ax'. jnp_moveaxis ex_Ax_2x3 1 0 = Inr Ax' \<and> shape Ax' = [3, 2] \<and>
      and_then (coo_mul_vec diag_host (coo_vec_operation_xla diag_host) ex_diag ex_diag Ax'
          \<lparr> dtype = Float64, shape = [3, 2], data = [4, 9, 4, 9, 4, 9] \<rparr>)
        (\<lambda>result. Inr (result, 0 :: nat)) =
      Inr (\<lparr> dtype = Float64, shape = [3, 2], data = [4, 36, 8, 45, 12, 54] \<rparr>, 0))"
proof -
  let ?op = "coo_mul_vec diag_host (coo_vec_operation_xla diag_host)"
  have w1: "wf_array ex_Ax_2x3" by (simp add: wf_array_def ex_Ax_2x3_def)
  have w2: "wf_array ex_b" by (simp add: wf_array_def ex_b_def)
  have r: "1 < length (shape ex_Ax_2x3)" by (simp add: ex_Ax_2x3_def)
  have v: "coo_vec_operation_vmap ?op (ex_diag, ex_diag, ex_Ax_2x3, ex_b) (None, None, Some 1, None) =
     Inr (\<lparr> dtype = Float64, shape = [3, 2], data = [4, 36, 8, 45, 12, 54] \<rparr>, 0)"
    by code_simp
  have f: "shape ex_Ax_2x3 ! 1 #
       map (\<lambda>k. shape ex_Ax_2x3 ! k) (filter (\<lambda>k. k \<noteq> 1) [0..<length (shape ex_Ax_2x3)]) = [3, 2]"
    by code_simp
  have bb: "\<lparr> dtype = dtype ex_b, shape = (shape ex_Ax_2x3 ! 1) # shape ex_b,
             data = concat (replicate (shape ex_Ax_2x3 ! 1) (data ex_b)) \<rparr> =
      \<lparr> dtype = Float64, shape = [3, 2], data = [4, 9, 4, 9, 4, 9] \<rparr>"
    by code_simp
  from only_Ax_batched [OF w1 w2 r, of ?op ex_diag ex_diag]
  obtain Ax' where a: "jnp_moveaxis ex_Ax_2x3 1 0 = Inr Ax'"
    and s: "shape Ax' = shape ex_Ax_2x3 ! 1 #
       map (\<lambda>k. shape ex_Ax_2x3 ! k) (filter (\<lambda>k. k \<noteq> 1) [0..<length (shape ex_Ax_2x3)])"
    and e: "coo_vec_operation_vmap ?op (ex_diag, ex_diag, ex_Ax_2x3, ex_b) (None, None, Some 1, None) =
       and_then (?op ex_diag ex_diag Ax'
           \<lparr> dtype = dtype ex_b, shape = (shape ex_Ax_2x3 ! 1) # shape ex_b,
             data = concat (replicate (shape ex_Ax_2x3 ! 1) (data ex_b)) \<rparr>)
         (\<lambda>result. Inr (result, 0 :: nat))"
    by blast
  have "and_then (?op ex_diag ex_diag Ax'
          \<lparr> dtype = Float64, shape = [3, 2], data = [4, 9, 4, 9, 4, 9] \<rparr>)
        (\<lambda>result. Inr (result, 0 :: nat)) =
      Inr (\<lparr> dtype = Float64, shape = [3, 2], data = [4, 36, 8, 45, 12, 54] \<rparr>, 0)"
    by (rule e [unfolded bb v, symmetric])
  with v a s [unfolded f] show ?thesis by blast
qed

lemma prod_list_map_int: "prod_list (map int dims) = int (prod_list dims)"
  by (induction dims) simp_all

lemma jnp_reshape_nat:
  "jnp_reshape a (map int dims) =
     (if prod_list dims = prod_list (shape a) then Inr (a\<lparr>shape := dims\<rparr>)
      else Inl (ValueError ''reshape: element counts differ''))"
proof -
  have f1: "filter (\<lambda>d. d \<noteq> - 1) (map int dims) = map int dims"
    by (rule filter_True) auto
  have f2: "filter (\<lambda>d. d = - 1) (map int dims) = []"
    by (rule filter_False) auto
  have n1: "\<not> (\<exists>d \<in> set (map int dims). d < - 1)" by auto
  have n2: "- 1 \<notin> set (map int dims)" by auto
  have m: "map nat (map int dims) = dims" by (simp add: comp_def)
  show ?thesis
    unfolding jnp_reshape_def Let_def f1 f2 prod_list_map_int m
    using n1 n2 by simp
qed

lemma jnp_reshape_infer:
  assumes "0 < C" and "prod_list (shape a) = C * m"
  shows "jnp_reshape a [int C, - 1] = Inr (a\<lparr>shape := [C, m]\<rparr>)"
  using assms by (simp add: jnp_reshape_def Let_def)

lemma is_permutation_102: "is_permutation [Suc 0, 0, 2] (Suc (Suc (Suc 0)))"
  by (simp add: is_permutation_def)

lemma permute_axes_102:
  assumes "shape a = [L, C, R]"
  shows "permute_axes a [Suc 0, 0, 2] =
    \<lparr> dtype = dtype a, shape = [C, L, R], data = batch_inward L C R (data a) \<rparr>"
  using assms
  by (simp add: permute_axes_def Let_def upt_3 index_of_def mod_mod_cancel batch_inward_def)

lemma jnp_transpose_102:
  "shape a = [L, C, R] \<Longrightarrow> jnp_transpose a [Suc 0, 0, 2] =
    Inr \<lparr> dtype = dtype a, shape = [C, L, R], data = batch_inward L C R (data a) \<rparr>"
  by (simp add: jnp_transpose_def is_permutation_102 permute_axes_102)

lemma length_batch_inward [simp]: "length (batch_inward L C R d) = C * (L * R)"
  by (simp add: batch_inward_def)

lemma batch_inward_nth:
  assumes "c < C" "l < L" "r < R"
  shows "batch_inward L C R d ! ((c * L + l) * R + r) = d ! ((l * C + c) * R + r)"
proof -
  have "batch_inward L C R d ! ((c * L + l) * R + r) = d ! (l * (C * R) + (c * R + r))"
    using idx3_bound [OF assms] assms(2,3) by (simp add: batch_inward_def idx3)
  also have "l * (C * R) + (c * R + r) = (l * C + c) * R + r"
    by (simp add: algebra_simps)
  finally show ?thesis .
qed

text \<open>
  Claim C6. When only the operand carries a batch axis, the rule moves that axis to
  position 0 (giving \<open>b'\<close> of shape \<open>[batch, n_cols, ...trailing]\<close>), builds the
  operand \<open>b2\<close> of shape \<open>[n_cols, batch * n_rhs]\<close> whose element \<open>(c, l * n_rhs + r)\<close>
  is element \<open>(l, c, r)\<close> of \<open>b'\<close>, calls the operation once on it, reshapes the result
  to \<open>[n_cols, batch, ...trailing]\<close> and reports batch axis 1. The operand has at least
  one column.
\<close>

theorem only_b_batched:
  assumes "wf_array b" and "jnp_moveaxis b ab 0 = Inr b'"
    and "shape b' = n_lhs # n_col # rs" and "0 < n_col"
  shows "\<exists>b2.
     dtype b2 = dtype b \<and> shape b2 = [n_col, n_lhs * prod_list rs] \<and>
     length (data b2) = n_col * (n_lhs * prod_list rs) \<and>
     (\<forall>c<n_col. \<forall>l<n_lhs. \<forall>r<prod_list rs.
        data b2 ! ((c * n_lhs + l) * prod_list rs + r) =
          data b' ! ((l * n_col + c) * prod_list rs + r)) \<and>
     coo_vec_operation_vmap operation (Ai, Aj, Ax, b) (None, None, None, Some ab) =
       and_then (operation Ai Aj Ax b2) (\<lambda>result.
       and_then (jnp_reshape result (map int (n_col # n_lhs # rs))) (\<lambda>result.
       Inr (result, 1))) \<and>
     (\<forall>result. operation Ai Aj Ax b2 = Inr result \<and> shape result = shape b2 \<longrightarrow>
        coo_vec_operation_vmap operation (Ai, Aj, Ax, b) (None, None, None, Some ab) =
          Inr (result\<lparr>shape := n_col # n_lhs # rs\<rparr>, 1))"
proof -
  let ?R = "prod_list rs"
  let ?b2 = "\<lparr> dtype = dtype b', shape = [n_col, n_lhs * ?R],
               data = batch_inward n_lhs n_col ?R (data b') \<rparr>"
  have rank: "ab < length (shape b)"
    using assms(2) by (cases "ab < length (shape b)") (simp_all add: jnp_moveaxis_def Let_def)
  have dt: "dtype b' = dtype b"
    using jnp_moveaxis_front [OF rank] assms(2) by auto
  have b'_eq: "b' = b" if "ab = 0"
    using jnp_moveaxis_0_0 [OF assms(1)] rank assms(2) that by simp
  have step1: "jnp_reshape b' [int n_lhs, int n_col, int ?R] = Inr (b'\<lparr>shape := [n_lhs, n_col, ?R]\<rparr>)"
    using jnp_reshape_nat [of b' "[n_lhs, n_col, ?R]"] assms(3) by simp
  have step2: "jnp_transpose (b'\<lparr>shape := [n_lhs, n_col, ?R]\<rparr>) [Suc 0, 0, 2] =
      Inr \<lparr> dtype = dtype b', shape = [n_col, n_lhs, ?R],
            data = batch_inward n_lhs n_col ?R (data b') \<rparr>"
    by (simp add: jnp_transpose_102)
  have step3: "jnp_reshape \<lparr> dtype = dtype b', shape = [n_col, n_lhs, ?R],
            data = batch_inward n_lhs n_col ?R (data b') \<rparr> [int n_col, - 1] = Inr ?b2"
    using jnp_reshape_infer [OF assms(4), of
        "\<lparr> dtype = dtype b', shape = [n_col, n_lhs, ?R],
            data = batch_inward n_lhs n_col ?R (data b') \<rparr>" "n_lhs * ?R"]
    by simp
  have rule: "coo_vec_operation_vmap operation (Ai, Aj, Ax, b) (None, None, None, Some ab) =
       and_then (operation Ai Aj Ax ?b2) (\<lambda>result.
       and_then (jnp_reshape result (map int (n_col # n_lhs # rs))) (\<lambda>result.
       Inr (result, 1)))"
  proof (cases "ab = 0")
    case True
    show ?thesis
      unfolding coo_vec_operation_vmap_def
      using True assms(3) [unfolded b'_eq [OF True]]
        step1 [unfolded b'_eq [OF True]] step2 [unfolded b'_eq [OF True]]
        step3 [unfolded b'_eq [OF True]]
      by (simp add: Let_def b'_eq [OF True])
  next
    case False
    show ?thesis
      unfolding coo_vec_operation_vmap_def
      using False
      by (simp add: assms(2) assms(3) step1 step2 step3 Let_def)
  qed
  have fin: "coo_vec_operation_vmap operation (Ai, Aj, Ax, b) (None, None, None, Some ab) =
          Inr (result\<lparr>shape := n_col # n_lhs # rs\<rparr>, 1)"
    if "operation Ai Aj Ax ?b2 = Inr result" "shape result = shape ?b2" for result
  proof -
    have r: "jnp_reshape result (map int (n_col # n_lhs # rs)) =
        Inr (result\<lparr>shape := n_col # n_lhs # rs\<rparr>)"
      using jnp_reshape_nat [of result "n_col # n_lhs # rs"] that(2) by simp
    show ?thesis
      unfolding rule that(1) by (simp only: and_then_simps r)
  qed
  show ?thesis
  proof (intro exI [of _ ?b2] conjI allI impI)
    show "dtype ?b2 = dtype b" using dt by simp
    show "shape ?b2 = [n_col, n_lhs * ?R]" by simp
    show "length (data ?b2) = n_col * (n_lhs * ?R)" by simp
    show "data ?b2 ! ((c * n_lhs + l) * ?R + r) = data b' ! ((l * n_col + c) * ?R + r)"
      if "c < n_col" "l < n_lhs" "r < ?R" for c l r
      using batch_inward_nth [OF that] by simp
    show "coo_vec_operation_vmap operation (Ai, Aj, Ax, b) (None, None, None, Some ab) =
       and_then (operation Ai Aj Ax ?b2) (\<lambda>result.
       and_then (jnp_reshape result (map int (n_col # n_lhs # rs))) (\<lambda>result.
       Inr (result, 1)))"
      by (rule rule)
    show "coo_vec_operation_vmap operation (Ai, Aj, Ax, b) (None, None, None, Some ab) =
          Inr (result\<lparr>shape := n_col # n_lhs # rs\<rparr>, 1)"
      if "operation Ai Aj Ax ?b2 = Inr result \<and> shape result = shape ?b2" for result
      using fin that by blast
  qed
qed

theorem only_b_batched_witness:
  "coo_vec_operation_vmap (coo_mul_vec diag_host (coo_vec_operation_xla diag_host))
     (ex_diag, ex_diag, ex_Ax, ex_b_2x3) (None, None, None, Some 1) =
     Inr (\<lparr> dtype = Float64, shape = [2, 3], data = [2, 4, 6, 12, 15, 18] \<rparr>, 1) \<and>
   (\<exists>b2. dtype b2 = Float64 \<and> shape b2 = [2, 3] \<and> length (data b2) = 6 \<and>
      and_then (coo_mul_vec diag_host (coo_vec_operation_xla diag_host) ex_diag ex_diag ex_Ax b2)
        (\<lambda>result. and_then (jnp_reshape result [2, 3]) (\<lambda>result. Inr (result, 1 :: nat))) =
      Inr (\<lparr> dtype = Float64, shape = [2, 3], data = [2, 4, 6, 12, 15, 18] \<rparr>, 1))"
proof -
  let ?op = "coo_mul_vec diag_host (coo_vec_operation_xla diag_host)"
  let ?b' = "\<lparr> dtype = Float64, shape = [3, 2], data = [1, 4, 2, 5, 3, 6 :: int] \<rparr>"
  have w: "wf_array ex_b_2x3" by (simp add: wf_array_def ex_b_2x3_def)
  have m: "jnp_moveaxis ex_b_2x3 1 0 = Inr ?b'" by code_simp
  have s: "shape ?b' = 3 # 2 # []" by simp
  have p: "0 < (2 :: nat)" by simp
  have v: "coo_vec_operation_vmap ?op (ex_diag, ex_diag, ex_Ax, ex_b_2x3) (None, None, None, Some 1) =
     Inr (\<lparr> dtype = Float64, shape = [2, 3], data = [2, 4, 6, 12, 15, 18] \<rparr>, 1)"
    by code_simp
  from only_b_batched [OF w m s p, of ?op ex_diag ex_diag ex_Ax]
  obtain b2 where d: "dtype b2 = dtype ex_b_2x3" and sh: "shape b2 = [2, 3 * prod_list []]"
    and l: "length (data b2) = 2 * (3 * prod_list [])"
    and e: "coo_vec_operation_vmap ?op (ex_diag, ex_diag, ex_Ax, ex_b_2x3) (None, None, None, Some 1) =
       and_then (?op ex_diag ex_diag ex_Ax b2) (\<lambda>result.
       and_then (jnp_reshape result (map int (2 # 3 # []))) (\<lambda>result. Inr (result, 1 :: nat)))"
    by blast
  have "and_then (?op ex_diag ex_diag ex_Ax b2)
        (\<lambda>result. and_then (jnp_reshape result [2, 3]) (\<lambda>result. Inr (result, 1 :: nat))) =
      Inr (\<lparr> dtype = Float64, shape = [2, 3], data = [2, 4, 6, 12, 15, 18] \<rparr>, 1)"
    using e [unfolded v, symmetric] by simp
  moreover have "dtype b2 = Float64" using d by (simp add: ex_b_2x3_def)
  moreover have "shape b2 = [2, 3]" using sh by simp
  moreover have "length (data b2) = 6" using l by simp
  ultimately show ?thesis using v by blast
qed

text \<open>
  With the operand's batch axis at position 0, the rule for two batched inputs calls the
  operation on the matrix values as they are, wherever their batch axis is.
\<close>

lemma both_batched_ab_0:
  assumes "aAx < length (shape Ax)"
  shows "coo_vec_operation_vmap operation (Ai, Aj, Ax, b) (None, None, Some aAx, Some 0) =
     and_then (operation Ai Aj Ax b) (\<lambda>result. Inr (result, 0))"
  unfolding coo_vec_operation_vmap_def
  by (simp add: shape_at_ok [OF assms])

text \<open>
  Claim C3 does not hold of the code. The guard of the first \<^verbatim>\<open>moveaxis\<close> tests
  \<open>ab\<close> where it should test \<open>aAx\<close>, so with the operand's batch axis at 0 and the
  matrix values' batch axis at 1 the values are not moved. For two diagonal systems
  \<open>diag(2, 5)\<close> and \<open>diag(3, 7)\<close>, stored with the batch axis last, and operands
  \<open>(1, 1)\<close>, the rule returns \<open>(2, 3)\<close> for the first, where the unbatched call returns
  \<open>(2, 5)\<close>; with three systems of two nonzeros the lowering's assertion on the batch
  counts fails.
\<close>

theorem both_batched_leaves_Ax_axis:
  "coo_vec_operation_vmap (coo_mul_vec diag_host (coo_vec_operation_xla diag_host))
     (ex_diag, ex_diag, ex_Ax_batched, ex_b_ones) (None, None, Some 1, Some 0) =
     Inr (\<lparr> dtype = Float64, shape = [2, 2], data = [2, 3, 5, 7] \<rparr>, 0) \<and>
   coo_mul_vec diag_host (coo_vec_operation_xla diag_host) ex_diag ex_diag ex_Ax_batch0 ex_b_batch0 =
     Inr \<lparr> dtype = Float64, shape = [2], data = [2, 5] \<rparr> \<and>
   coo_vec_operation_vmap (coo_mul_vec diag_host (coo_vec_operation_xla diag_host))
     (ex_diag, ex_diag, ex_Ax_2x3, ex_b_3x2) (None, None, Some 1, Some 0) =
     Inl (AssertionError ''Batch dimension of Ax and b don't match.'')"
  by code_simp

end
